theory Spec2Isabelle
  imports Main "HOL-Library.Word"
begin

unbundle bit_operations_syntax

section \<open>Values of the Go program\<close>

text \<open>
  Package \<open>http\<close> of haki: an instrumented response writer, a chain of handler
  wrappers, the error, log and audit wrappers, and the dispatch of body decoding on the
  Content-Type header. Go's \<open>int\<close> is taken at 64 bits; \<open>[]byte\<close> and \<open>string\<close>
  are byte sequences.
\<close>

type_synonym go_int = "64 word"
type_synonym bytes = string

text \<open>An \<open>error\<close> value is opaque but for its message, which \<open>Error()\<close> returns.\<close>

datatype error = errors_New string

fun error_Error :: "error \<Rightarrow> string" where
  "error_Error (errors_New m) = m"

text \<open>Fields of package \<open>l\<close> (structured logging), one constructor per field maker.\<close>

datatype field =
    l_String string string
  | l_Bool string bool
  | l_Int string go_int
  | l_Duration string int
  | l_Err error

datatype severity = InfoLevel | ErrorLevel

record entry =
  severity :: severity
  event :: string
  entry_fields :: "field list"

text \<open>A logger made by \<open>l.WithFields\<close> carries its bound fields into every entry.\<close>

type_synonym logger = "field list"

record Identity =
  Token :: string
  Value :: "(string \<times> string) list"

record Auditor =
  TID :: string
  CID :: string
  Logger :: logger
  Identity :: Identity

text \<open>
  Modelled from the spec: the keys \<open>ContextKeys\<close> of request-scoped storage are not
  among the source files. The spec lists trace-id, correlation-id, logger,
  identity-token, identity and auditor; they are pairwise distinct keys here.
  \<open>StringKey\<close> is a plain Go string used as a key, as \<open>logHandle\<close> does with "tid".
\<close>

datatype ctx_key =
    StringKey string
  | ContextKeys_TID
  | ContextKeys_CID
  | ContextKeys_LOG
  | ContextKeys_TOKEN
  | ContextKeys_IDENTITY
  | ContextKeys_AUDITOR

datatype ctx_value =
    StringValue string
  | LoggerValue logger
  | IdentityValue Identity
  | AuditorValue Auditor

text \<open>
  A \<open>context.Context\<close> is the chain of its \<open>WithValue\<close> links, the newest first;
  \<open>Value\<close> returns the first match.
\<close>

type_synonym ctx = "(ctx_key \<times> ctx_value) list"

definition WithValue :: "ctx \<Rightarrow> ctx_key \<Rightarrow> ctx_value \<Rightarrow> ctx" where
  "WithValue ctx k v = (k, v) # ctx"

definition ctx_Value :: "ctx \<Rightarrow> ctx_key \<Rightarrow> ctx_value option" where
  "ctx_Value ctx k = map_of ctx k"

text \<open>
  \<open>textproto.CanonicalMIMEHeaderKey\<close>: a key with a byte that is not a header field
  byte is returned as it is; otherwise the first letter and every letter after a hyphen
  are put in upper case and the other letters in lower case.
\<close>

definition validHeaderFieldByte :: "char \<Rightarrow> bool" where
  "validHeaderFieldByte c =
     (let n = (of_char c :: nat)
      in (48 \<le> n \<and> n \<le> 57) \<or> (65 \<le> n \<and> n \<le> 90) \<or> (97 \<le> n \<and> n \<le> 122) \<or>
         c \<in> set (''!#$%&*+-.^_|~'' @ [CHR 0x27, CHR 0x60]))"

fun canonical_from :: "bool \<Rightarrow> string \<Rightarrow> string" where
  "canonical_from upper [] = []"
| "canonical_from upper (c # cs) =
     (let n = (of_char c :: nat);
          c1 = (if upper \<and> 97 \<le> n \<and> n \<le> 122 then char_of (n - 32)
                else if \<not> upper \<and> 65 \<le> n \<and> n \<le> 90 then char_of (n + 32)
                else c)
      in c1 # canonical_from (c1 = CHR ''-'') cs)"

definition CanonicalMIMEHeaderKey :: "string \<Rightarrow> string" where
  "CanonicalMIMEHeaderKey s =
     (if list_all validHeaderFieldByte s then canonical_from True s else s)"

text \<open>
  An \<open>http.Header\<close> is a map from header names to value lists. \<open>Get\<close> and
  \<open>Set\<close> canonicalise the key they are given; \<open>Get\<close> returns the first value, or
  the empty string when there is none.
\<close>

type_synonym header = "string \<rightharpoonup> string list"

definition Header_Get :: "header \<Rightarrow> string \<Rightarrow> string" where
  "Header_Get h k =
     (case h (CanonicalMIMEHeaderKey k) of None \<Rightarrow> [] | Some [] \<Rightarrow> [] | Some (v # _) \<Rightarrow> v)"

record request =
  Method :: string
  URL_Path :: string
  Header :: header
  Context :: ctx

definition WithContext :: "request \<Rightarrow> ctx \<Rightarrow> request" where
  "WithContext r ctx = r\<lparr>Context := ctx\<rparr>"

text \<open>
  Modelled from the spec: the helper \<open>set(r, key, value)\<close> is not among the source
  files. By the spec each set operation returns a new request value carrying the added
  key and never mutates in place.
\<close>

definition set_req :: "request \<Rightarrow> ctx_key \<Rightarrow> ctx_value \<Rightarrow> request" where
  "set_req r k v = WithContext r (WithValue (Context r) k v)"

text \<open>
  The names that package \<open>http\<close> takes from packages \<open>haki\<close> and \<open>json\<close>, whose
  declarations are not among the source files: a parameter of every function that uses
  them.
\<close>

record names =
  RequestIDHeader :: string
  RequestContextHeader :: string
  ContentTypeHeader :: string
  json_ContentType :: string
  ErrInvalidContentType :: error

section \<open>The world of one request\<close>

text \<open>
  Everything a handler can change while one request is served. The transport's sink
  records the calls it receives; what its \<open>Write\<close> returns is any function of the
  calls so far and the bytes offered. The heap holds the \<open>responseWriter\<close> structs.
\<close>

datatype call = WriteHeader_call go_int | Write_call bytes

record responseWriter =
  status :: go_int
  size' :: go_int

record world =
  respond :: "call list \<Rightarrow> bytes \<Rightarrow> go_int \<times> error option"
  calls :: "call list"
  resp_header :: header
  heap :: "nat \<Rightarrow> responseWriter"
  next_ptr :: nat
  log :: "entry list"
  now :: int
  entropy :: "nat \<Rightarrow> 8 word"
  drawn :: nat
  body :: bytes

text \<open>
  An \<open>http.ResponseWriter\<close> is the transport's sink or a pointer to a
  \<open>responseWriter\<close>. The embedded writer of a \<open>responseWriter\<close> is set at
  construction and never assigned again, so the pointer carries it; the fields
  \<open>status\<close> and \<open>size\<close> live in the heap at the pointer's address.
\<close>

datatype writer = Transport | Instrumented nat writer

text \<open>The interface \<open>ResponseWriter\<close> of this package has one implementation.\<close>

datatype ResponseWriter = responseWriter_at nat writer

fun as_writer :: "ResponseWriter \<Rightarrow> writer" where
  "as_writer (responseWriter_at p u) = Instrumented p u"

definition NewResponseWriter :: "writer \<Rightarrow> world \<Rightarrow> ResponseWriter \<times> world" where
  "NewResponseWriter w s =
     (responseWriter_at (next_ptr s) w,
      s\<lparr>heap := (heap s)(next_ptr s := \<lparr>status = 0, size' = 0\<rparr>),
        next_ptr := Suc (next_ptr s)\<rparr>)"

definition StatusOK :: go_int where
  "StatusOK = 200"

definition StatusInternalServerError :: go_int where
  "StatusInternalServerError = 500"

fun Status :: "ResponseWriter \<Rightarrow> world \<Rightarrow> go_int" where
  "Status (responseWriter_at p u) s = status (heap s p)"

fun Size :: "ResponseWriter \<Rightarrow> world \<Rightarrow> go_int" where
  "Size (responseWriter_at p u) s = size' (heap s p)"

fun Written :: "ResponseWriter \<Rightarrow> world \<Rightarrow> bool" where
  "Written (responseWriter_at p u) s = (status (heap s p) \<noteq> 0)"

fun WriteHeader :: "writer \<Rightarrow> go_int \<Rightarrow> world \<Rightarrow> world" where
  "WriteHeader Transport c s = s\<lparr>calls := calls s @ [WriteHeader_call c]\<rparr>"
| "WriteHeader (Instrumented p u) c s =
     WriteHeader u c (s\<lparr>heap := (heap s)(p := (heap s p)\<lparr>status := c\<rparr>)\<rparr>)"

fun Write :: "writer \<Rightarrow> bytes \<Rightarrow> world \<Rightarrow> (go_int \<times> error option) \<times> world" where
  "Write Transport b s =
     (respond s (calls s) b, s\<lparr>calls := calls s @ [Write_call b]\<rparr>)"
| "Write (Instrumented p u) b s =
     (let s1 = (if \<not> Written (responseWriter_at p u) s
                then WriteHeader (Instrumented p u) StatusOK s else s);
          ((n, err), s2) = Write u b s1
      in ((n, err), s2\<lparr>heap := (heap s2)(p := (heap s2 p)\<lparr>size' := size' (heap s2 p) + n\<rparr>)\<rparr>))"

text \<open>\<open>w.Header().Set(k, v)\<close>: \<open>Header\<close> is promoted from the embedded writer.\<close>

fun Header_Set :: "writer \<Rightarrow> string \<Rightarrow> string \<Rightarrow> world \<Rightarrow> world" where
  "Header_Set Transport k v s =
     s\<lparr>resp_header := (resp_header s)(CanonicalMIMEHeaderKey k \<mapsto> [v])\<rparr>"
| "Header_Set (Instrumented p u) k v s = Header_Set u k v s"

section \<open>Library functions the package calls\<close>

text \<open>
  \<open>uuid.NewV4\<close> (satori/go.uuid): sixteen random bytes with the version and variant
  bits set; \<open>String\<close> prints them in hexadecimal, in five groups.
\<close>

type_synonym UUID = "8 word list"

definition safeRandom :: "nat \<Rightarrow> world \<Rightarrow> UUID \<times> world" where
  "safeRandom n s =
     (map (\<lambda>i. entropy s (drawn s + i)) [0..<n], s\<lparr>drawn := drawn s + n\<rparr>)"

definition SetVersion :: "8 word \<Rightarrow> UUID \<Rightarrow> UUID" where
  "SetVersion v u = u[6 := (u ! 6 AND 0x0f) OR push_bit 4 v]"

definition SetVariant :: "UUID \<Rightarrow> UUID" where
  "SetVariant u = u[8 := (u ! 8 AND 0xbf) OR 0x80]"

definition NewV4 :: "world \<Rightarrow> UUID \<times> world" where
  "NewV4 s = (let (u, s1) = safeRandom 16 s in (SetVariant (SetVersion 4 u), s1))"

definition hextable :: string where
  "hextable = ''0123456789abcdef''"

fun hex_Encode :: "8 word list \<Rightarrow> string" where
  "hex_Encode [] = []"
| "hex_Encode (v # vs) =
     hextable ! unat (drop_bit 4 v) # hextable ! unat (v AND 0x0f) # hex_Encode vs"

definition UUID_String :: "UUID \<Rightarrow> string" where
  "UUID_String u =
     hex_Encode (take 4 u) @ ''-'' @ hex_Encode (take 2 (drop 4 u)) @ ''-'' @
     hex_Encode (take 2 (drop 6 u)) @ ''-'' @ hex_Encode (take 2 (drop 8 u)) @ ''-'' @
     hex_Encode (drop 10 u)"

text \<open>Package \<open>l\<close>: an entry holds the logger's bound fields, then the call's.\<close>

definition l_WithFields :: "field list \<Rightarrow> logger" where
  "l_WithFields fs = fs"

definition logger_Info :: "logger \<Rightarrow> string \<Rightarrow> field list \<Rightarrow> world \<Rightarrow> world" where
  "logger_Info lg ev fs s =
     s\<lparr>log := log s @ [\<lparr>severity = InfoLevel, event = ev, entry_fields = lg @ fs\<rparr>]\<rparr>"

definition logger_Error :: "logger \<Rightarrow> string \<Rightarrow> field list \<Rightarrow> world \<Rightarrow> world" where
  "logger_Error lg ev fs s =
     s\<lparr>log := log s @ [\<lparr>severity = ErrorLevel, event = ev, entry_fields = lg @ fs\<rparr>]\<rparr>"

text \<open>
  Modelled from the spec: the methods of \<open>Auditor\<close> are not among the source files. By
  the spec the auditor exposes the same logging surface as a plain logger; it logs
  through the logger it bundles.
\<close>

definition Auditor_Info :: "Auditor \<Rightarrow> string \<Rightarrow> field list \<Rightarrow> world \<Rightarrow> world" where
  "Auditor_Info a ev fs s = logger_Info (Logger a) ev fs s"

definition Auditor_Error :: "Auditor \<Rightarrow> string \<Rightarrow> field list \<Rightarrow> world \<Rightarrow> world" where
  "Auditor_Error a ev fs s = logger_Error (Logger a) ev fs s"

text \<open>\<open>http.StatusText\<close>: a table lookup, the empty string for an unknown code.\<close>

definition statusText :: "(go_int \<times> string) list" where
  "statusText =
     [(100, ''Continue''), (101, ''Switching Protocols''), (102, ''Processing''),
      (200, ''OK''), (201, ''Created''), (202, ''Accepted''),
      (203, ''Non-Authoritative Information''), (204, ''No Content''),
      (205, ''Reset Content''), (206, ''Partial Content''), (207, ''Multi-Status''),
      (208, ''Already Reported''), (226, ''IM Used''),
      (300, ''Multiple Choices''), (301, ''Moved Permanently''), (302, ''Found''),
      (303, ''See Other''), (304, ''Not Modified''), (305, ''Use Proxy''),
      (307, ''Temporary Redirect''), (308, ''Permanent Redirect''),
      (400, ''Bad Request''), (401, ''Unauthorized''), (402, ''Payment Required''),
      (403, ''Forbidden''), (404, ''Not Found''), (405, ''Method Not Allowed''),
      (406, ''Not Acceptable''), (407, ''Proxy Authentication Required''),
      (408, ''Request Timeout''), (409, ''Conflict''), (410, ''Gone''),
      (411, ''Length Required''), (412, ''Precondition Failed''),
      (413, ''Request Entity Too Large''), (414, ''Request URI Too Long''),
      (415, ''Unsupported Media Type''), (416, ''Requested Range Not Satisfiable''),
      (417, ''Expectation Failed''), (418, ''I'' @ [CHR 0x27] @ ''m a teapot''),
      (422, ''Unprocessable Entity''), (423, ''Locked''), (424, ''Failed Dependency''),
      (426, ''Upgrade Required''), (428, ''Precondition Required''),
      (429, ''Too Many Requests''), (431, ''Request Header Fields Too Large''),
      (451, ''Unavailable For Legal Reasons''),
      (500, ''Internal Server Error''), (501, ''Not Implemented''),
      (502, ''Bad Gateway''), (503, ''Service Unavailable''), (504, ''Gateway Timeout''),
      (505, ''HTTP Version Not Supported''), (506, ''Variant Also Negotiates''),
      (507, ''Insufficient Storage''), (508, ''Loop Detected''), (510, ''Not Extended''),
      (511, ''Network Authentication Required'')]"

definition StatusText :: "go_int \<Rightarrow> string" where
  "StatusText code = (case map_of statusText code of None \<Rightarrow> [] | Some t \<Rightarrow> t)"

text \<open>
  \<open>http.Error\<close>: sets the plain-text content type, writes the status and prints the
  message as one line with \<open>Fprintln\<close>, whose result it drops.
\<close>

definition Fprintln :: "writer \<Rightarrow> string \<Rightarrow> world \<Rightarrow> (go_int \<times> error option) \<times> world" where
  "Fprintln w a s = Write w (a @ [CHR 0x0A]) s"

definition http_Error :: "writer \<Rightarrow> string \<Rightarrow> go_int \<Rightarrow> world \<Rightarrow> world" where
  "http_Error w msg code s =
     (let s1 = Header_Set w ''Content-Type'' ''text/plain; charset=utf-8'' s;
          s2 = Header_Set w ''X-Content-Type-Options'' ''nosniff'' s1;
          s3 = WriteHeader w code s2
      in snd (Fprintln w msg s3))"

text \<open>
  \<open>strings.Contains\<close>: whether \<open>substr\<close> occurs in \<open>s\<close> as a contiguous run.
\<close>

fun HasPrefix :: "string \<Rightarrow> string \<Rightarrow> bool" where
  "HasPrefix s [] = True"
| "HasPrefix [] (c # cs) = False"
| "HasPrefix (d # ds) (c # cs) = (d = c \<and> HasPrefix ds cs)"

fun Contains :: "string \<Rightarrow> string \<Rightarrow> bool" where
  "Contains [] substr = HasPrefix [] substr"
| "Contains (c # cs) substr = (HasPrefix (c # cs) substr \<or> Contains cs substr)"

section \<open>Handlers and wrappers\<close>

text \<open>
  A handler runs on a writer and a request and returns an optional error; what it does
  to the sink, the log, the clock and the body is its effect on the world.
\<close>

type_synonym HTTPHandlerFunc = "writer \<Rightarrow> request \<Rightarrow> world \<Rightarrow> error option \<times> world"
type_synonym HTTPHandlerWrapper = "HTTPHandlerFunc \<Rightarrow> HTTPHandlerFunc"
type_synonym http_HandlerFunc = "writer \<Rightarrow> request \<Rightarrow> world \<Rightarrow> world"

definition Handler :: "HTTPHandlerFunc \<Rightarrow> http_HandlerFunc" where
  "Handler handler = (\<lambda>w h s. snd (handler w h s))"

text \<open>The loop of \<open>Wrap\<close> over its wrappers, in the order of the list.\<close>

fun Wrap_loop :: "HTTPHandlerFunc \<Rightarrow> HTTPHandlerWrapper list \<Rightarrow> HTTPHandlerFunc" where
  "Wrap_loop currentHandler [] = currentHandler"
| "Wrap_loop currentHandler (w # wrappers) = Wrap_loop (w currentHandler) wrappers"

definition Wrap :: "HTTPHandlerFunc \<Rightarrow> HTTPHandlerWrapper list \<Rightarrow> http_HandlerFunc" where
  "Wrap h wrappers = Handler (Wrap_loop h wrappers)"

definition errorHandle :: "HTTPHandlerFunc \<Rightarrow> writer \<Rightarrow> request \<Rightarrow> world \<Rightarrow> error option \<times> world" where
  "errorHandle handler w r s =
     (case handler w r s of
        (Some err, s1) \<Rightarrow>
          (Some err, http_Error w (error_Error err) StatusInternalServerError s1)
      | (None, s1) \<Rightarrow> (None, s1))"

definition Error :: HTTPHandlerWrapper where
  "Error handler = (\<lambda>w r s. errorHandle handler w r s)"

definition logHandle :: "HTTPHandlerFunc \<Rightarrow> writer \<Rightarrow> request \<Rightarrow> world \<Rightarrow> error option \<times> world" where
  "logHandle handler w r s =
     (let (u, s1) = NewV4 s;
          tid = UUID_String u;
          r1 = WithContext r (WithValue (Context r) (StringKey ''tid'') (StringValue tid));
          logger = l_WithFields
            [l_String ''tid'' tid, l_String ''method'' (Method r1),
             l_String ''path'' (URL_Path r1)];
          start = now s1;
          s2 = logger_Info logger ''haki.hhtp.Request'' [l_Bool ''ctxIsNil'' False] s1;
          r2 = set_req r1 ContextKeys_LOG (LoggerValue logger);
          (rw, s3) = NewResponseWriter w s2;
          (err, s4) = handler (as_writer rw) r2 s3;
          s5 = (case err of
                  Some e \<Rightarrow> logger_Error logger ''haki.http.RequestErr'' [l_Err e] s4
                | None \<Rightarrow> s4);
          s6 = logger_Info logger ''haki.http.Response''
                 [l_String ''status'' (StatusText (Status rw s5)),
                  l_Int ''size'' (Size rw s5),
                  l_Duration ''requestTime'' (now s5 - start)] s5
      in (err, s6))"

definition Log :: HTTPHandlerWrapper where
  "Log handler = (\<lambda>w r s. logHandle handler w r s)"

definition auditHandle :: "names \<Rightarrow> HTTPHandlerFunc \<Rightarrow> writer \<Rightarrow> request \<Rightarrow> world \<Rightarrow> error option \<times> world" where
  "auditHandle K handler w r s =
     (let start = now s;
          (u, s1) = NewV4 s;
          tid = UUID_String u;
          cid = Header_Get (Header r) (RequestContextHeader K);
          s2 = Header_Set w (RequestIDHeader K) tid s1;
          s3 = Header_Set w (RequestContextHeader K) cid s2;
          r1 = set_req r ContextKeys_TID (StringValue tid);
          r2 = set_req r1 ContextKeys_CID (StringValue tid);
          identity = \<lparr>Token = ''tanonymous'',
                      Value = [(''ID'', ''uanonymous''), (''Name'', ''User Anonymous'')]\<rparr>;
          logger = l_WithFields
            [l_String ''tid'' tid, l_String ''cid'' cid, l_String ''method'' (Method r2),
             l_String ''path'' (URL_Path r2), l_String ''token'' (Token identity)];
          auditor = \<lparr>TID = tid, CID = cid, Logger = logger, Identity = identity\<rparr>;
          s4 = Auditor_Info auditor ''haki.http.Request'' [l_Bool ''ctxIsNil'' False] s3;
          r3 = set_req r2 ContextKeys_LOG (LoggerValue logger);
          r4 = set_req r3 ContextKeys_TOKEN (StringValue (Token identity));
          r5 = set_req r4 ContextKeys_IDENTITY (IdentityValue identity);
          r6 = set_req r5 ContextKeys_AUDITOR (AuditorValue auditor);
          (rw, s5) = NewResponseWriter w s4;
          (err, s6) = handler (as_writer rw) r6 s5;
          s7 = (case err of
                  Some e \<Rightarrow> Auditor_Error auditor ''haki.http.RequestErr'' [l_Err e] s6
                | None \<Rightarrow> s6);
          s8 = Auditor_Info auditor ''haki.http.Response''
                 [l_String ''status'' (StatusText (Status rw s7)),
                  l_Int ''size'' (Size rw s7),
                  l_Duration ''requestTime'' (now s7 - start)] s7
      in (err, s8))"

definition Audit :: "names \<Rightarrow> HTTPHandlerWrapper" where
  "Audit K handler = Error (\<lambda>w r s. auditHandle K handler w r s)"

section \<open>Reading a body by content type\<close>

text \<open>
  The decoder of \<open>encoding/json\<close> is a parameter: from the unread body and the target
  it gives the number of bytes it reads, the target afterwards and its error.
\<close>

type_synonym 'd decoder = "bytes \<Rightarrow> 'd \<Rightarrow> nat \<times> 'd \<times> error option"

definition Unmarshal :: "'d decoder \<Rightarrow> 'd \<Rightarrow> world \<Rightarrow> (error option \<times> 'd) \<times> world" where
  "Unmarshal Decode result s =
     (let (n, result1, err) = Decode (body s) result
      in ((err, result1), s\<lparr>body := drop n (body s)\<rparr>))"

definition ReadJSON :: "'d decoder \<Rightarrow> request \<Rightarrow> 'd \<Rightarrow> world \<Rightarrow> (error option \<times> 'd) \<times> world" where
  "ReadJSON Decode r data s =
     (case Unmarshal Decode data s of
        ((Some err, data1), s1) \<Rightarrow> ((Some err, data1), s1)
      | ((None, data1), s1) \<Rightarrow> ((None, data1), s1))"

definition ReadByContentType :: "names \<Rightarrow> 'd decoder \<Rightarrow> request \<Rightarrow> 'd \<Rightarrow> world \<Rightarrow> (error option \<times> 'd) \<times> world" where
  "ReadByContentType K Decode r data s =
     (let contentType = Header_Get (Header r) (ContentTypeHeader K)
      in if Contains contentType (json_ContentType K) then ReadJSON Decode r data s
         else ((Some (ErrInvalidContentType K), data), s))"

section \<open>Nil function values and panics\<close>

text \<open>
  A Go function value can be nil, and a call can panic: the call of a nil function value
  does, and the body of a handler or of a wrapper may. The definitions above take
  handlers and wrappers that are present and return. The definitions of this section
  make nil values and panics explicit for the chain: \<open>Wrap\<close> calls each wrapper in
  its loop, \<open>Handler\<close> only builds a closure, and the closure calls the handler when
  it is dispatched. Nothing in the package recovers from a panic.
\<close>

datatype 'a outcome = Returns 'a | Panics

type_synonym handler_body = "writer \<Rightarrow> request \<Rightarrow> world \<Rightarrow> (error option \<times> world) outcome"
type_synonym handler_value = "handler_body option"
type_synonym wrapper_value = "(handler_value \<Rightarrow> handler_value outcome) option"
type_synonym dispatch_body = "writer \<Rightarrow> request \<Rightarrow> world \<Rightarrow> world outcome"

fun call_handler :: "handler_value \<Rightarrow> handler_body" where
  "call_handler None w r s = Panics"
| "call_handler (Some f) w r s = f w r s"

fun call_wrapper :: "wrapper_value \<Rightarrow> handler_value \<Rightarrow> handler_value outcome" where
  "call_wrapper None h = Panics"
| "call_wrapper (Some d) h = d h"

definition Handler_or_panic :: "handler_value \<Rightarrow> dispatch_body" where
  "Handler_or_panic handler =
     (\<lambda>w h s. case call_handler handler w h s of
                 Panics \<Rightarrow> Panics
               | Returns (err, s1) \<Rightarrow> Returns s1)"

fun Wrap_loop_or_panic :: "handler_value \<Rightarrow> wrapper_value list \<Rightarrow> handler_value outcome" where
  "Wrap_loop_or_panic currentHandler [] = Returns currentHandler"
| "Wrap_loop_or_panic currentHandler (w # wrappers) =
     (case call_wrapper w currentHandler of
        Panics \<Rightarrow> Panics
      | Returns next_handler \<Rightarrow> Wrap_loop_or_panic next_handler wrappers)"

definition Wrap_or_panic :: "handler_value \<Rightarrow> wrapper_value list \<Rightarrow> dispatch_body outcome" where
  "Wrap_or_panic h wrappers =
     (case Wrap_loop_or_panic h wrappers of
        Panics \<Rightarrow> Panics
      | Returns currentHandler \<Rightarrow> Returns (Handler_or_panic currentHandler))"

text \<open>A handler of the definitions above, as a function value that is present and returns.\<close>

definition present :: "HTTPHandlerFunc \<Rightarrow> handler_value" where
  "present h = Some (\<lambda>w r s. Returns (h w r s))"

section \<open>Notions the properties are stated with\<close>

text \<open>
  The nesting the specification describes, in its words: the first decorator listed is
  the outermost, \<open>d1 (d2 (... (dn h)))\<close>.
\<close>

fun first_outermost :: "HTTPHandlerWrapper list \<Rightarrow> HTTPHandlerFunc \<Rightarrow> HTTPHandlerFunc" where
  "first_outermost [] h = h"
| "first_outermost (d # ds) h = d (first_outermost ds h)"

text \<open>A sequence of \<open>Write\<close> calls on one writer, with the result of each call.\<close>

fun Write_seq :: "writer \<Rightarrow> bytes list \<Rightarrow> world \<Rightarrow> (go_int \<times> error option) list \<times> world" where
  "Write_seq w [] s = ([], s)"
| "Write_seq w (b # bs) s =
     (let (res, s1) = Write w b s; (ress, s2) = Write_seq w bs s1 in (res # ress, s2))"

text \<open>The structs a writer reaches, and whether all of them are allocated.\<close>

fun ptrs :: "writer \<Rightarrow> nat set" where
  "ptrs Transport = {}"
| "ptrs (Instrumented p u) = insert p (ptrs u)"

fun allocated :: "writer \<Rightarrow> world \<Rightarrow> bool" where
  "allocated Transport s = True"
| "allocated (Instrumented p u) s = (p < next_ptr s \<and> allocated u s)"

subsection \<open>Concrete inputs\<close>

text \<open>
  A world at rest: a transport that accepts every byte offered, nothing allocated,
  nothing logged, an entropy source of zero bytes.
\<close>

definition idle_world :: world where
  "idle_world =
     \<lparr>respond = (\<lambda>cs b. (word_of_nat (length b), None)), calls = [],
      resp_header = Map.empty, heap = (\<lambda>p. \<lparr>status = 0, size' = 0\<rparr>), next_ptr = 0,
      log = [], now = 0, entropy = (\<lambda>i. 0), drawn = 0, body = []\<rparr>"

definition get_root :: request where
  "get_root = \<lparr>Method = ''GET'', URL_Path = ''/'', Header = Map.empty, Context = []\<rparr>"

text \<open>A decorator that logs a mark before and after the handler it wraps.\<close>

definition marking :: "string \<Rightarrow> HTTPHandlerWrapper" where
  "marking name handler =
     (\<lambda>w r s. let s1 = logger_Info [] (name @ '' before'') [] s;
                  (err, s2) = handler w r s1
              in (err, logger_Info [] (name @ '' after'') [] s2))"

text \<open>A handler that logs a mark and fails with the given message, writing nothing.\<close>

definition failing :: "string \<Rightarrow> HTTPHandlerFunc" where
  "failing m = (\<lambda>w r s. (Some (errors_New m), logger_Info [] ''handler'' [] s))"

text \<open>
  A world with one struct of the heap and the allocation counter replaced: what a
  wrapped writer cannot tell apart from the world itself when it does not reach the
  struct.
\<close>

definition aside :: "nat \<Rightarrow> responseWriter \<Rightarrow> nat \<Rightarrow> world \<Rightarrow> world" where
  "aside p x n s = s\<lparr>heap := (heap s)(p := x), next_ptr := n\<rparr>"

text \<open>A transport that accepts two calls and then writes one byte and fails.\<close>

definition flaky_world :: world where
  "flaky_world =
     idle_world\<lparr>respond := (\<lambda>cs b. if length cs < 2 then (word_of_nat (length b), None)
                                   else (1, Some (errors_New ''broken pipe'')))\<rparr>"

text \<open>A handler that writes a body through its writer and succeeds.\<close>

definition replying :: "bytes \<Rightarrow> HTTPHandlerFunc" where
  "replying b = (\<lambda>w r s. (None, snd (Write w b s)))"

text \<open>Names for the parameters of package \<open>haki\<close>, and a request that carries a correlation id.\<close>

definition header_names :: names where
  "header_names =
     \<lparr>RequestIDHeader = ''X-Request-Id'', RequestContextHeader = ''X-Request-Context'',
      ContentTypeHeader = ''Content-Type'', json_ContentType = ''application/json'',
      ErrInvalidContentType = errors_New ''invalid content type''\<rparr>"

definition correlated :: request where
  "correlated = get_root\<lparr>Header := [''X-Request-Context'' \<mapsto> [''abc'']]\<rparr>"

text \<open>A handler that does nothing and succeeds.\<close>

definition silent :: HTTPHandlerFunc where
  "silent = (\<lambda>w r s. (None, s))"

text \<open>
  Two posted requests, a world whose body is unread, and a decoder that reads the whole
  body and leaves its length in the target.
\<close>

definition json_post :: request where
  "json_post = \<lparr>Method = ''POST'', URL_Path = ''/'',
     Header = [''Content-Type'' \<mapsto> [''application/json; charset=utf-8'']], Context = []\<rparr>"

definition text_post :: request where
  "text_post = \<lparr>Method = ''POST'', URL_Path = ''/'',
     Header = [''Content-Type'' \<mapsto> [''text/plain'']], Context = []\<rparr>"

definition posted :: world where
  "posted = idle_world\<lparr>body := ''[1]''\<rparr>"

definition counting_decoder :: "nat decoder" where
  "counting_decoder b d = (length b, length b, None)"

section \<open>The decorator chain\<close>

lemma first_outermost_snoc:
  "first_outermost (ds @ [d]) h = first_outermost ds (d h)"
  by (induction ds) simp_all

lemma Wrap_loop_nesting: "Wrap_loop h ds = first_outermost (rev ds) h"
  by (induction ds arbitrary: h) (simp_all add: first_outermost_snoc)

lemma marked_order_of_Wrap:
  "map event (log (Wrap (failing ''boom'') [marking ''d1'', marking ''d2'']
       Transport get_root idle_world)) =
   [''d2 before'', ''d1 before'', ''handler'', ''d1 after'', ''d2 after'']"
  by (simp add: Wrap_def Handler_def marking_def failing_def logger_Info_def idle_world_def)

lemma marked_order_of_first_outermost:
  "map event (log (Handler (first_outermost [marking ''d1'', marking ''d2''] (failing ''boom''))
       Transport get_root idle_world)) =
   [''d1 before'', ''d2 before'', ''handler'', ''d2 after'', ''d1 after'']"
  by (simp add: Handler_def marking_def failing_def logger_Info_def idle_world_def)

text \<open>
  C1, as the code has it: \<open>Wrap\<close> applies the wrappers in list order, each around the
  result of the one before, so the last decorator listed is the outermost and the first
  is next to the handler: \<open>Wrap h [d1, ..., dn]\<close> adapts \<open>dn (... (d1 h))\<close>, which is
  the nesting of the specification on the reversed list.
\<close>

theorem Wrap_last_outermost:
  "Wrap h ds = Handler (first_outermost (rev ds) h)"
  by (simp add: Wrap_def Wrap_loop_nesting)

text \<open>
  C1 as stated fails: with two marking decorators, \<open>d2\<close>'s before-mark is logged first
  and its after-mark last, and the composed handler differs from the one with \<open>d1\<close>
  outermost.
\<close>

theorem Wrap_first_outermost_counterexample:
  "Wrap (failing ''boom'') [marking ''d1'', marking ''d2''] Transport get_root idle_world \<noteq>
     Handler (first_outermost [marking ''d1'', marking ''d2''] (failing ''boom''))
       Transport get_root idle_world \<and>
   map event (log (Wrap (failing ''boom'') [marking ''d1'', marking ''d2'']
       Transport get_root idle_world)) =
     [''d2 before'', ''d1 before'', ''handler'', ''d1 after'', ''d2 after'']"
  using marked_order_of_Wrap marked_order_of_first_outermost by auto

text \<open>
  On handlers and wrappers that are present and return, the chain with panics made
  explicit is the chain of the definitions above; a nil wrapper in the list makes
  \<open>Wrap\<close> itself panic.
\<close>

lemma Wrap_loop_or_panic_present:
  "list_all2 (\<lambda>wv d. \<forall>h. call_wrapper wv (present h) = Returns (present (d h))) wvs ds \<Longrightarrow>
   Wrap_loop_or_panic (present h) wvs = Returns (present (Wrap_loop h ds))"
  by (induction wvs ds arbitrary: h rule: list_all2_induct) simp_all

lemma Handler_or_panic_present:
  "Handler_or_panic (present h) = (\<lambda>w r s. Returns (Handler h w r s))"
  by (simp add: Handler_or_panic_def Handler_def present_def split_beta)

lemma Wrap_or_panic_present:
  "list_all2 (\<lambda>wv d. \<forall>h. call_wrapper wv (present h) = Returns (present (d h))) wvs ds \<Longrightarrow>
   Wrap_or_panic (present h) wvs = Returns (\<lambda>w r s. Returns (Wrap h ds w r s))"
  by (simp add: Wrap_or_panic_def Wrap_def Wrap_loop_or_panic_present Handler_or_panic_present)

lemma Wrap_or_panic_nil_wrapper: "Wrap_or_panic hv (None # wvs) = Panics"
  by (simp add: Wrap_or_panic_def)

text \<open>
  C6: with no decorator, \<open>Wrap\<close> does not panic, whatever the handler value, nil
  included: it calls nothing and returns the adapted handler. When that handler is
  dispatched it calls \<open>h\<close> once: it panics exactly when that call does (a nil \<open>h\<close>,
  or a body that panics), and otherwise returns with the world \<open>h\<close> leaves, all its
  effects on the sink, and drops its error. On a handler that is present and returns
  this is \<open>Wrap h []\<close> of the definitions above, which yields the world \<open>h\<close> leaves.
\<close>

theorem Wrap_no_decorators_never_panics:
  "Wrap_or_panic hv [] = Returns (Handler_or_panic hv) \<and>
   Handler_or_panic None w r s = Panics \<and>
   Handler_or_panic (Some f) w r s =
     (case f w r s of Panics \<Rightarrow> Panics | Returns (err, s1) \<Rightarrow> Returns s1) \<and>
   Wrap_or_panic (present h) [] = Returns (\<lambda>w r s. Returns (Wrap h [] w r s)) \<and>
   Wrap h [] w r s = snd (h w r s)"
proof -
  have "Wrap_or_panic (present h) [] = Returns (\<lambda>w r s. Returns (Wrap h [] w r s))"
    by (rule Wrap_or_panic_present) simp
  then show ?thesis
    by (simp add: Wrap_or_panic_def Handler_or_panic_def Wrap_def Handler_def)
qed

section \<open>The instrumented response writer\<close>

subsection \<open>What the writer methods leave alone\<close>

lemma WriteHeader_frame:
  "calls (WriteHeader w c s) = calls s @ [WriteHeader_call c]"
  "resp_header (WriteHeader w c s) = resp_header s"
  "respond (WriteHeader w c s) = respond s"
  "next_ptr (WriteHeader w c s) = next_ptr s"
  "log (WriteHeader w c s) = log s"
  "now (WriteHeader w c s) = now s"
  by (induction w arbitrary: s) simp_all

lemma WriteHeader_heap_other:
  "p \<notin> ptrs w \<Longrightarrow> heap (WriteHeader w c s) p = heap s p"
  by (induction w arbitrary: s) auto

lemma Write_frame:
  "resp_header (snd (Write w b s)) = resp_header s"
  "next_ptr (snd (Write w b s)) = next_ptr s"
  "log (snd (Write w b s)) = log s"
  "now (snd (Write w b s)) = now s"
  by (induction w arbitrary: s) (simp_all add: Let_def split_beta WriteHeader_frame)

lemma Write_heap_other:
  "p \<notin> ptrs w \<Longrightarrow> heap (snd (Write w b s)) p = heap s p"
  by (induction w arbitrary: s) (auto simp: Let_def split_beta WriteHeader_heap_other)

lemma Header_Set_frame:
  "calls (Header_Set w k v s) = calls s"
  "heap (Header_Set w k v s) = heap s"
  "resp_header (Header_Set w k v s) = (resp_header s)(CanonicalMIMEHeaderKey k \<mapsto> [v])"
  "log (Header_Set w k v s) = log s"
  "now (Header_Set w k v s) = now s"
  "next_ptr (Header_Set w k v s) = next_ptr s"
  by (induction w arbitrary: s) simp_all

lemma allocated_fresh: "allocated u s \<Longrightarrow> next_ptr s \<notin> ptrs u"
  by (induction u) auto

subsection \<open>A wrapped writer does not see a struct it does not reach\<close>

lemma aside_aside: "aside p x n (aside p y m s) = aside p x n s"
  by (simp add: aside_def)

lemma aside_same: "aside p (heap s p) (next_ptr s) s = s"
  by (simp add: aside_def)

lemma heap_aside: "heap (aside p x n s) p = x"
  by (simp add: aside_def)

lemma next_ptr_aside: "next_ptr (aside p x n s) = n"
  by (simp add: aside_def)

lemma WriteHeader_aside:
  "p \<notin> ptrs u \<Longrightarrow> WriteHeader u c (aside p x n s) = aside p x n (WriteHeader u c s)"
proof (induction u arbitrary: s)
  case Transport
  show ?case by (simp add: aside_def)
next
  case (Instrumented q u)
  then have ne: "q \<noteq> p" and notin: "p \<notin> ptrs u" by auto
  have "(aside p x n s)\<lparr>heap := (heap (aside p x n s))
            (q := (heap (aside p x n s) q)\<lparr>status := c\<rparr>)\<rparr>
        = aside p x n (s\<lparr>heap := (heap s)(q := (heap s q)\<lparr>status := c\<rparr>)\<rparr>)"
    using ne by (simp add: aside_def fun_upd_twist)
  then show ?case using Instrumented.IH [OF notin] by simp
qed

lemma Write_aside:
  "p \<notin> ptrs u \<Longrightarrow>
   Write u b (aside p x n s) = (fst (Write u b s), aside p x n (snd (Write u b s)))"
proof (induction u arbitrary: s)
  case Transport
  show ?case by (simp add: aside_def)
next
  case (Instrumented q u)
  then have ne: "q \<noteq> p" and notin: "p \<notin> ptrs u" by auto
  have notin': "p \<notin> ptrs (Instrumented q u)" using Instrumented.prems .
  define s1 where "s1 = (if \<not> Written (responseWriter_at q u) s
                then WriteHeader (Instrumented q u) StatusOK s else s)"
  have w: "Written (responseWriter_at q u) (aside p x n s) = Written (responseWriter_at q u) s"
    using ne by (simp add: aside_def)
  have s1': "(if \<not> Written (responseWriter_at q u) (aside p x n s)
              then WriteHeader (Instrumented q u) StatusOK (aside p x n s)
              else aside p x n s) = aside p x n s1"
    unfolding w s1_def using WriteHeader_aside [OF notin'] by simp
  have L: "Write (Instrumented q u) b (aside p x n s) =
     (let ((k, err), s2) = Write u b (aside p x n s1)
      in ((k, err), s2\<lparr>heap := (heap s2)(q := (heap s2 q)\<lparr>size' := size' (heap s2 q) + k\<rparr>)\<rparr>))"
    using s1' by (simp del: WriteHeader.simps Written.simps)
  have R: "Write (Instrumented q u) b s =
     (let ((k, err), s2) = Write u b s1
      in ((k, err), s2\<lparr>heap := (heap s2)(q := (heap s2 q)\<lparr>size' := size' (heap s2 q) + k\<rparr>)\<rparr>))"
    unfolding s1_def by (simp del: WriteHeader.simps Written.simps)
  show ?case
    unfolding L R Instrumented.IH [OF notin]
    using ne by (simp add: aside_def fun_upd_twist split: prod.splits)
qed

lemma Write_seq_aside:
  "p \<notin> ptrs u \<Longrightarrow>
   Write_seq u bs (aside p x n s) =
     (fst (Write_seq u bs s), aside p x n (snd (Write_seq u bs s)))"
proof (induction bs arbitrary: s)
  case Nil
  show ?case by simp
next
  case (Cons b bs)
  show ?case
    by (simp add: Write_aside [OF Cons.prems] Cons.IH [OF Cons.prems] split: prod.splits)
qed

subsection \<open>Writes through a writer whose status is set\<close>

lemma Write_written:
  assumes "p \<notin> ptrs u" and "status (heap s p) \<noteq> 0"
  shows "Write (Instrumented p u) b s =
    (fst (Write u b s),
     aside p ((heap s p)\<lparr>size' := size' (heap s p) + fst (fst (Write u b s))\<rparr>) (next_ptr s)
       (snd (Write u b s)))"
proof -
  obtain k err s2 where w: "Write u b s = ((k, err), s2)" by (metis surj_pair)
  have h: "heap s2 p = heap s p" using Write_heap_other [OF assms(1), of b s] w by simp
  have n: "next_ptr s2 = next_ptr s" using Write_frame(2) [of u b s] w by simp
  show ?thesis using assms(2) by (simp add: w h n aside_def)
qed

lemma Write_seq_written:
  assumes "p \<notin> ptrs u" and "status (heap s p) \<noteq> 0"
  shows "Write_seq (Instrumented p u) bs s =
    (fst (Write_seq u bs s),
     aside p ((heap s p)\<lparr>size' := size' (heap s p) +
                 sum_list (map fst (fst (Write_seq u bs s)))\<rparr>)
       (next_ptr s) (snd (Write_seq u bs s)))"
  using assms(2)
proof (induction bs arbitrary: s)
  case Nil
  show ?case by (simp add: aside_same)
next
  case (Cons b bs)
  obtain r s1 where w: "Write u b s = (r, s1)" by (metis surj_pair)
  obtain rs s2 where ws: "Write_seq u bs s1 = (rs, s2)" by (metis surj_pair)
  define c where "c = (heap s p)\<lparr>size' := size' (heap s p) + fst r\<rparr>"
  have st: "status (heap (aside p c (next_ptr s) s1) p) \<noteq> 0"
    using Cons.prems by (simp add: heap_aside c_def)
  have 1: "Write (Instrumented p u) b s = (r, aside p c (next_ptr s) s1)"
    using Write_written [OF assms(1) Cons.prems, of b] w by (simp add: c_def)
  have 2: "Write_seq (Instrumented p u) bs (aside p c (next_ptr s) s1) =
     (rs, aside p (c\<lparr>size' := size' c + sum_list (map fst rs)\<rparr>) (next_ptr s) s2)"
    using Cons.IH [OF st] Write_seq_aside [OF assms(1), of bs c "next_ptr s" s1] ws
    by (simp add: heap_aside next_ptr_aside aside_aside)
  have 3: "Write_seq u (b # bs) s = (r # rs, s2)" using w ws by simp
  have 4: "Write_seq (Instrumented p u) (b # bs) s =
     (r # rs, aside p (c\<lparr>size' := size' c + sum_list (map fst rs)\<rparr>) (next_ptr s) s2)"
    using 1 2 by (simp del: Write.simps)
  show ?case unfolding 4 3 by (simp add: c_def add.assoc)
qed

subsection \<open>Writes through a fresh writer\<close>

lemma first_Write:
  assumes "p \<notin> ptrs u" and "status x = 0"
  shows "Write (Instrumented p u) b (aside p x n s) =
         Write (Instrumented p u) b
           (aside p (x\<lparr>status := StatusOK\<rparr>) n (WriteHeader u StatusOK s))"
proof -
  have a: "(aside p x n s)\<lparr>heap := (heap (aside p x n s))
             (p := (heap (aside p x n s) p)\<lparr>status := StatusOK\<rparr>)\<rparr>
     = aside p (x\<lparr>status := StatusOK\<rparr>) n s"
    by (simp add: aside_def)
  have "WriteHeader (Instrumented p u) StatusOK (aside p x n s)
      = aside p (x\<lparr>status := StatusOK\<rparr>) n (WriteHeader u StatusOK s)"
    using a WriteHeader_aside [OF assms(1)] by simp
  moreover have "\<not> Written (responseWriter_at p u) (aside p x n s)"
    using assms(2) by (simp add: heap_aside)
  moreover have "Written (responseWriter_at p u)
      (aside p (x\<lparr>status := StatusOK\<rparr>) n (WriteHeader u StatusOK s))"
    by (simp add: heap_aside StatusOK_def)
  ultimately show ?thesis by (simp del: WriteHeader.simps Written.simps)
qed

lemma fresh_Write_seq:
  assumes "allocated u s"
  shows "Write_seq (Instrumented (next_ptr s) u) (b # bs) (snd (NewResponseWriter u s)) =
    (fst (Write_seq u (b # bs) (WriteHeader u StatusOK s)),
     aside (next_ptr s)
       \<lparr>status = StatusOK,
        size' = sum_list (map fst (fst (Write_seq u (b # bs) (WriteHeader u StatusOK s))))\<rparr>
       (Suc (next_ptr s)) (snd (Write_seq u (b # bs) (WriteHeader u StatusOK s))))"
proof -
  let ?p = "next_ptr s"
  let ?t = "aside ?p \<lparr>status = StatusOK, size' = 0\<rparr> (Suc ?p) (WriteHeader u StatusOK s)"
  have p: "?p \<notin> ptrs u" using assms by (rule allocated_fresh)
  have s0: "snd (NewResponseWriter u s) = aside ?p \<lparr>status = 0, size' = 0\<rparr> (Suc ?p) s"
    by (simp add: NewResponseWriter_def aside_def)
  have f: "Write (Instrumented ?p u) b (snd (NewResponseWriter u s)) =
           Write (Instrumented ?p u) b ?t"
    unfolding s0 using first_Write [OF p, of "\<lparr>status = 0, size' = 0\<rparr>" b "Suc ?p" s] by simp
  have "Write_seq (Instrumented ?p u) (b # bs) (snd (NewResponseWriter u s)) =
        Write_seq (Instrumented ?p u) (b # bs) ?t"
    using f by (simp del: Write.simps)
  also have "\<dots> = (fst (Write_seq u (b # bs) ?t),
       aside ?p ((heap ?t ?p)\<lparr>size' := size' (heap ?t ?p) +
                    sum_list (map fst (fst (Write_seq u (b # bs) ?t)))\<rparr>)
       (next_ptr ?t) (snd (Write_seq u (b # bs) ?t)))"
    by (rule Write_seq_written [OF p]) (simp add: heap_aside StatusOK_def)
  finally show ?thesis
    by (simp add: Write_seq_aside [OF p] heap_aside next_ptr_aside aside_aside
        del: Write_seq.simps)
qed

text \<open>
  C3: on a fresh instrumented writer around any writer \<open>u\<close> (whose structs were
  allocated before), with no \<open>WriteHeader\<close> call, the recorded status is 200 after the
  first \<open>Write\<close> and after all of them; \<open>Size\<close> is the sum of the counts the calls
  returned (in Go's \<open>int\<close>); and every call returns the count and the error that \<open>u\<close>
  itself returns for the same writes after the default \<open>WriteHeader(200)\<close>.
\<close>

theorem fresh_sink_writes:
  assumes "allocated u s"
    and "NewResponseWriter u s = (rw, s0)"
    and "Write_seq (as_writer rw) (b # bs) s0 = (res, s')"
  shows "Status rw (snd (Write (as_writer rw) b s0)) = 200 \<and>
         Status rw s' = 200 \<and>
         Size rw s' = sum_list (map fst res) \<and>
         res = fst (Write_seq u (b # bs) (WriteHeader u StatusOK s))"
proof -
  let ?p = "next_ptr s"
  have rw: "rw = responseWriter_at ?p u" and s0: "s0 = snd (NewResponseWriter u s)"
    using assms(2) by (auto simp: NewResponseWriter_def)
  have all: "Write_seq (Instrumented ?p u) (b # bs) s0 =
    (fst (Write_seq u (b # bs) (WriteHeader u StatusOK s)),
     aside ?p
       \<lparr>status = StatusOK,
        size' = sum_list (map fst (fst (Write_seq u (b # bs) (WriteHeader u StatusOK s))))\<rparr>
       (Suc ?p) (snd (Write_seq u (b # bs) (WriteHeader u StatusOK s))))"
    unfolding s0 using assms(1) by (rule fresh_Write_seq)
  have one: "Write_seq (Instrumented ?p u) [b] s0 =
    (fst (Write_seq u [b] (WriteHeader u StatusOK s)),
     aside ?p
       \<lparr>status = StatusOK,
        size' = sum_list (map fst (fst (Write_seq u [b] (WriteHeader u StatusOK s))))\<rparr>
       (Suc ?p) (snd (Write_seq u [b] (WriteHeader u StatusOK s))))"
    unfolding s0 using assms(1) by (rule fresh_Write_seq)
  have first: "snd (Write (Instrumented ?p u) b s0) = snd (Write_seq (Instrumented ?p u) [b] s0)"
    by (simp del: Write.simps split: prod.splits)
  have res: "res = fst (Write_seq u (b # bs) (WriteHeader u StatusOK s))"
    and s': "s' = aside ?p
       \<lparr>status = StatusOK,
        size' = sum_list (map fst (fst (Write_seq u (b # bs) (WriteHeader u StatusOK s))))\<rparr>
       (Suc ?p) (snd (Write_seq u (b # bs) (WriteHeader u StatusOK s)))"
    using all assms(3) unfolding rw by (auto simp del: Write_seq.simps)
  show ?thesis
    unfolding rw as_writer.simps Status.simps Size.simps first one
    unfolding s' res [symmetric]
    by (simp add: heap_aside StatusOK_def del: Write_seq.simps)
qed

text \<open>
  On a transport that fails at its second \<open>Write\<close> after one byte: the status is 200,
  the size is 2 + 1, and the failure comes back as the transport gave it.
\<close>

theorem fresh_sink_writes_witness:
  "allocated Transport flaky_world \<and>
   Status (fst (NewResponseWriter Transport flaky_world))
     (snd (Write_seq (as_writer (fst (NewResponseWriter Transport flaky_world)))
        [''ab'', ''cde''] (snd (NewResponseWriter Transport flaky_world)))) = 200 \<and>
   Size (fst (NewResponseWriter Transport flaky_world))
     (snd (Write_seq (as_writer (fst (NewResponseWriter Transport flaky_world)))
        [''ab'', ''cde''] (snd (NewResponseWriter Transport flaky_world)))) = 3 \<and>
   fst (Write_seq (as_writer (fst (NewResponseWriter Transport flaky_world)))
        [''ab'', ''cde''] (snd (NewResponseWriter Transport flaky_world))) =
     [(2, None), (1, Some (errors_New ''broken pipe''))]"
proof -
  let ?rw = "fst (NewResponseWriter Transport flaky_world)"
  let ?s0 = "snd (NewResponseWriter Transport flaky_world)"
  let ?run = "Write_seq (as_writer ?rw) [''ab'', ''cde''] ?s0"
  have a: "allocated Transport flaky_world" by simp
  have u: "fst (Write_seq Transport [''ab'', ''cde'']
             (WriteHeader Transport StatusOK flaky_world)) =
           [(2, None), (1, Some (errors_New ''broken pipe''))]"
    by (simp add: flaky_world_def idle_world_def)
  show ?thesis
    using a u fresh_sink_writes [OF a, of ?rw ?s0 "''ab''" "[''cde'']" "fst ?run" "snd ?run"]
    by (simp del: Write_seq.simps)
qed

section \<open>The error-translating decorator\<close>

lemma WriteHeader_status:
  "p \<in> ptrs w \<Longrightarrow> status (heap (WriteHeader w c s) p) = c"
proof (induction w arbitrary: s)
  case Transport
  then show ?case by simp
next
  case (Instrumented q u)
  show ?case
  proof (cases "p \<in> ptrs u")
    case True
    then show ?thesis using Instrumented.IH by simp
  next
    case False
    with Instrumented.prems have "p = q" by simp
    with False show ?thesis by (simp add: WriteHeader_heap_other)
  qed
qed

lemma Write_calls_written:
  "(\<And>p. p \<in> ptrs w \<Longrightarrow> status (heap s p) \<noteq> 0) \<Longrightarrow>
   calls (snd (Write w b s)) = calls s @ [Write_call b]"
  by (induction w arbitrary: s) (simp_all add: Let_def split_beta)

lemma http_Error_calls:
  assumes "code \<noteq> 0"
  shows "calls (http_Error w msg code s) =
         calls s @ [WriteHeader_call code, Write_call (msg @ [CHR 0x0A])]"
proof -
  let ?s2 = "Header_Set w ''X-Content-Type-Options'' ''nosniff''
              (Header_Set w ''Content-Type'' ''text/plain; charset=utf-8'' s)"
  have "\<And>p. p \<in> ptrs w \<Longrightarrow> status (heap (WriteHeader w code ?s2) p) \<noteq> 0"
    using assms by (simp add: WriteHeader_status)
  then have "calls (snd (Write w (msg @ [CHR 0x0A]) (WriteHeader w code ?s2))) =
        calls (WriteHeader w code ?s2) @ [Write_call (msg @ [CHR 0x0A])]"
    by (rule Write_calls_written)
  then show ?thesis
    by (simp add: http_Error_def Fprintln_def WriteHeader_frame Header_Set_frame)
qed

text \<open>The header names used below are in canonical form already.\<close>

lemma canonical_names:
  "CanonicalMIMEHeaderKey ''Content-Type'' = ''Content-Type''"
  "CanonicalMIMEHeaderKey ''X-Content-Type-Options'' = ''X-Content-Type-Options''"
  "CanonicalMIMEHeaderKey ''X-Request-Id'' = ''X-Request-Id''"
  "CanonicalMIMEHeaderKey ''X-Request-Context'' = ''X-Request-Context''"
  by code_simp+

lemma http_Error_frame:
  "resp_header (http_Error w msg code s) =
     (resp_header s)(''Content-Type'' \<mapsto> [''text/plain; charset=utf-8''],
                     ''X-Content-Type-Options'' \<mapsto> [''nosniff''])"
  "log (http_Error w msg code s) = log s"
  "now (http_Error w msg code s) = now s"
  by (simp_all add: http_Error_def Fprintln_def Write_frame WriteHeader_frame Header_Set_frame
      canonical_names)

text \<open>
  C4, as the code has it: when the inner handler returns an error, \<open>Error\<close> returns
  that same error and makes one \<open>http.Error\<close> reply on the writer it was given: the
  transport receives exactly one \<open>WriteHeader(500)\<close> and then exactly one
  \<open>Write\<close>, whose bytes are the error's message followed by a newline (the content
  type is set to text/plain). When the inner handler returns no error, \<open>Error\<close>
  returns none and the world is the one the handler left: the decorator makes no call on
  the sink.
\<close>

theorem Error_translates:
  "(handler w r s = (Some err, s1) \<longrightarrow>
      fst (Error handler w r s) = Some err \<and>
      snd (Error handler w r s) = http_Error w (error_Error err) 500 s1 \<and>
      calls (snd (Error handler w r s)) =
        calls s1 @ [WriteHeader_call 500, Write_call (error_Error err @ [CHR 0x0A])] \<and>
      Header_Get (resp_header (snd (Error handler w r s))) ''Content-Type'' =
        ''text/plain; charset=utf-8'') \<and>
   (handler w r s = (None, s1) \<longrightarrow> Error handler w r s = (None, s1))"
proof -
  have "calls (http_Error w (error_Error err) 500 s1) =
        calls s1 @ [WriteHeader_call 500, Write_call (error_Error err @ [CHR 0x0A])]"
    by (rule http_Error_calls) simp
  then show ?thesis
    by (simp add: Error_def errorHandle_def StatusInternalServerError_def http_Error_frame
        Header_Get_def canonical_names)
qed

text \<open>
  A handler that fails with "boom" and one that replies "ok", each on the bare transport.
\<close>

theorem Error_translates_witness:
  "fst (Error (failing ''boom'') Transport get_root idle_world) = Some (errors_New ''boom'') \<and>
   calls (snd (Error (failing ''boom'') Transport get_root idle_world)) =
     [WriteHeader_call 500, Write_call (''boom'' @ [CHR 0x0A])] \<and>
   Error (replying ''ok'') Transport get_root idle_world =
     replying ''ok'' Transport get_root idle_world"
proof -
  have f: "failing ''boom'' Transport get_root idle_world =
      (Some (errors_New ''boom''), snd (failing ''boom'' Transport get_root idle_world))"
    by (simp add: failing_def)
  have c: "calls (snd (failing ''boom'' Transport get_root idle_world)) = []"
    by (simp add: failing_def logger_Info_def idle_world_def)
  have g: "replying ''ok'' Transport get_root idle_world =
      (None, snd (replying ''ok'' Transport get_root idle_world))"
    by (simp add: replying_def)
  have A: "fst (Error (failing ''boom'') Transport get_root idle_world) =
             Some (errors_New ''boom'')"
    and B: "calls (snd (Error (failing ''boom'') Transport get_root idle_world)) =
        calls (snd (failing ''boom'' Transport get_root idle_world)) @
        [WriteHeader_call 500, Write_call (error_Error (errors_New ''boom'') @ [CHR 0x0A])]"
    using Error_translates [of "failing ''boom''" Transport get_root idle_world
        "errors_New ''boom''" "snd (failing ''boom'' Transport get_root idle_world)"] f
    by blast+
  have C: "Error (replying ''ok'') Transport get_root idle_world =
           (None, snd (replying ''ok'' Transport get_root idle_world))"
    using Error_translates [of "replying ''ok''" Transport get_root idle_world
        "errors_New []" "snd (replying ''ok'' Transport get_root idle_world)"] g
    by blast
  show ?thesis using A B C c g by simp
qed

text \<open>
  C4 as stated fails: for a handler that fails with "boom" the body written is not the
  message "boom" but "boom" and a newline.
\<close>

theorem Error_body_counterexample:
  "calls (snd (Error (failing ''boom'') Transport get_root idle_world)) \<noteq>
     [WriteHeader_call 500, Write_call ''boom''] \<and>
   calls (snd (Error (failing ''boom'') Transport get_root idle_world)) =
     [WriteHeader_call 500, Write_call (''boom'' @ [CHR 0x0A])]"
proof -
  have "calls (snd (Error (failing ''boom'') Transport get_root idle_world)) =
      calls (snd (failing ''boom'' Transport get_root idle_world)) @
      [WriteHeader_call 500, Write_call (''boom'' @ [CHR 0x0A])]"
    by (simp add: Error_def errorHandle_def failing_def StatusInternalServerError_def
        http_Error_calls)
  then show ?thesis
    by (simp add: failing_def logger_Info_def idle_world_def)
qed

section \<open>The audit decorator\<close>

lemma errorHandle_fst: "fst (errorHandle h w r s) = fst (h w r s)"
  by (simp add: errorHandle_def split: prod.splits option.splits)

lemma UUID_String_nonempty: "UUID_String u \<noteq> []"
  by (simp add: UUID_String_def)

lemma NewV4_frame:
  "resp_header (snd (NewV4 s)) = resp_header s"
  "now (snd (NewV4 s)) = now s"
  "log (snd (NewV4 s)) = log s"
  "heap (snd (NewV4 s)) = heap s"
  by (simp_all add: NewV4_def safeRandom_def)

lemma NewV4_idle:
  "UUID_String (fst (NewV4 idle_world)) = ''00000000-0000-4000-8000-000000000000''"
  by (simp add: NewV4_def safeRandom_def idle_world_def SetVersion_def SetVariant_def
      UUID_String_def hextable_def upt_rec)

text \<open>
  What \<open>auditHandle\<close> does around any handler: the handler runs once, in a world
  whose response headers hold the trace id and the inbound correlation id, and the
  response headers of the world returned are those the handler leaves.
\<close>

lemma auditHandle_run:
  "\<exists>rw r6 s5.
     resp_header s5 =
       (resp_header s)
         (CanonicalMIMEHeaderKey (RequestIDHeader K) \<mapsto> [UUID_String (fst (NewV4 s))],
          CanonicalMIMEHeaderKey (RequestContextHeader K) \<mapsto>
            [Header_Get (Header r) (RequestContextHeader K)]) \<and>
     (\<forall>handler.
        fst (auditHandle K handler w r s) = fst (handler (as_writer rw) r6 s5) \<and>
        resp_header (snd (auditHandle K handler w r s)) =
          resp_header (snd (handler (as_writer rw) r6 s5)))"
proof -
  have keep: "resp_header (case e of None \<Rightarrow> t | Some x \<Rightarrow> Auditor_Error a ev [l_Err x] t) =
      resp_header t" for e t a ev
    by (cases e) (simp_all add: Auditor_Error_def logger_Error_def)
  show ?thesis
    unfolding auditHandle_def Let_def split_beta fst_conv snd_conv
    apply (intro exI conjI allI)
      prefer 2
      apply (rule refl)
     apply (simp add: NewResponseWriter_def Auditor_Info_def logger_Info_def Header_Set_frame
        NewV4_frame)
    apply (simp add: Auditor_Info_def logger_Info_def keep)
    done
qed

lemma errorHandle_resp_header:
  "k \<notin> {''Content-Type'', ''X-Content-Type-Options''} \<Longrightarrow>
   resp_header (snd (errorHandle h w r s)) k = resp_header (snd (h w r s)) k"
  by (auto simp: errorHandle_def http_Error_frame split: prod.splits option.splits)

text \<open>
  C5: \<open>Audit\<close> runs the handler once, in a world where the trace-id response header
  holds the freshly generated id, which is never empty, and the correlation-id response
  header holds what \<open>Get\<close> returns for the inbound correlation-id header: its first
  value, or the empty string when it is absent. The response returned by \<open>Audit\<close>
  carries the same two headers when the handler leaves them alone, also after the error
  reply. The two header names are parameters of the package: their canonical forms are
  taken to differ from each other and from the two headers that \<open>http.Error\<close> sets.
\<close>

theorem Audit_response_headers:
  assumes "CanonicalMIMEHeaderKey (RequestIDHeader K) \<noteq>
           CanonicalMIMEHeaderKey (RequestContextHeader K)"
    and "CanonicalMIMEHeaderKey (RequestIDHeader K) \<notin>
           {''Content-Type'', ''X-Content-Type-Options''}"
    and "CanonicalMIMEHeaderKey (RequestContextHeader K) \<notin>
           {''Content-Type'', ''X-Content-Type-Options''}"
    and "\<And>w' r' s'. resp_header (snd (handler w' r' s'))
             (CanonicalMIMEHeaderKey (RequestIDHeader K)) =
           resp_header s' (CanonicalMIMEHeaderKey (RequestIDHeader K))"
    and "\<And>w' r' s'. resp_header (snd (handler w' r' s'))
             (CanonicalMIMEHeaderKey (RequestContextHeader K)) =
           resp_header s' (CanonicalMIMEHeaderKey (RequestContextHeader K))"
  shows "Header_Get (resp_header (snd (Audit K handler w r s))) (RequestIDHeader K) =
           UUID_String (fst (NewV4 s)) \<and>
         UUID_String (fst (NewV4 s)) \<noteq> [] \<and>
         Header_Get (resp_header (snd (Audit K handler w r s))) (RequestContextHeader K) =
           Header_Get (Header r) (RequestContextHeader K) \<and>
         (\<exists>rw r6 s5.
            (\<forall>h. fst (Audit K h w r s) = fst (h (as_writer rw) r6 s5)) \<and>
            Header_Get (resp_header s5) (RequestIDHeader K) = UUID_String (fst (NewV4 s)) \<and>
            Header_Get (resp_header s5) (RequestContextHeader K) =
              Header_Get (Header r) (RequestContextHeader K))"
proof -
  let ?i = "CanonicalMIMEHeaderKey (RequestIDHeader K)"
  let ?c = "CanonicalMIMEHeaderKey (RequestContextHeader K)"
  obtain rw r6 s5 where s5: "resp_header s5 =
       (resp_header s)(?i \<mapsto> [UUID_String (fst (NewV4 s))],
          ?c \<mapsto> [Header_Get (Header r) (RequestContextHeader K)])"
    and run: "\<And>h. fst (auditHandle K h w r s) = fst (h (as_writer rw) r6 s5)"
    and out: "\<And>h. resp_header (snd (auditHandle K h w r s)) =
          resp_header (snd (h (as_writer rw) r6 s5))"
    using auditHandle_run [of s K r w] by blast
  have at_i: "resp_header s5 ?i = Some [UUID_String (fst (NewV4 s))]"
    and at_c: "resp_header s5 ?c = Some [Header_Get (Header r) (RequestContextHeader K)]"
    using assms(1) by (simp_all add: s5)
  have fin_i: "resp_header (snd (Audit K handler w r s)) ?i = resp_header s5 ?i"
    using errorHandle_resp_header [OF assms(2), of "auditHandle K handler" w r s]
    by (simp add: Audit_def Error_def out assms(4))
  have fin_c: "resp_header (snd (Audit K handler w r s)) ?c = resp_header s5 ?c"
    using errorHandle_resp_header [OF assms(3), of "auditHandle K handler" w r s]
    by (simp add: Audit_def Error_def out assms(5))
  have call: "\<And>h. fst (Audit K h w r s) = fst (h (as_writer rw) r6 s5)"
    by (simp add: Audit_def Error_def errorHandle_fst run)
  have "Header_Get (resp_header s5) (RequestIDHeader K) = UUID_String (fst (NewV4 s))"
    "Header_Get (resp_header s5) (RequestContextHeader K) =
       Header_Get (Header r) (RequestContextHeader K)"
    "Header_Get (resp_header (snd (Audit K handler w r s))) (RequestIDHeader K) =
       UUID_String (fst (NewV4 s))"
    "Header_Get (resp_header (snd (Audit K handler w r s))) (RequestContextHeader K) =
       Header_Get (Header r) (RequestContextHeader K)"
    by (simp_all add: Header_Get_def [of "resp_header s5"]
        Header_Get_def [of "resp_header (snd (Audit K handler w r s))"] fin_i fin_c at_i at_c)
  with call show ?thesis by (auto simp: UUID_String_nonempty)
qed

text \<open>
  With an entropy source of zero bytes: a handler that fails on a request with the
  inbound correlation id "abc", and the handler that does nothing on a request without
  one.
\<close>

theorem Audit_response_headers_witness:
  "CanonicalMIMEHeaderKey (RequestIDHeader header_names) \<noteq>
     CanonicalMIMEHeaderKey (RequestContextHeader header_names) \<and>
   Header_Get (resp_header (snd (Audit header_names (failing ''boom'') Transport correlated
       idle_world))) ''X-Request-Id'' = ''00000000-0000-4000-8000-000000000000'' \<and>
   Header_Get (resp_header (snd (Audit header_names (failing ''boom'') Transport correlated
       idle_world))) ''X-Request-Context'' = ''abc'' \<and>
   Header_Get (resp_header (snd (Audit header_names silent Transport get_root
       idle_world))) ''X-Request-Context'' = []"
proof -
  have n: "RequestIDHeader header_names = ''X-Request-Id''"
    "RequestContextHeader header_names = ''X-Request-Context''"
    by (simp_all add: header_names_def)
  have d: "CanonicalMIMEHeaderKey (RequestIDHeader header_names) \<noteq>
     CanonicalMIMEHeaderKey (RequestContextHeader header_names)"
    by (simp add: n canonical_names)
  have e: "CanonicalMIMEHeaderKey (RequestIDHeader header_names) \<notin>
      {''Content-Type'', ''X-Content-Type-Options''}"
    "CanonicalMIMEHeaderKey (RequestContextHeader header_names) \<notin>
      {''Content-Type'', ''X-Content-Type-Options''}"
    by (simp_all add: n canonical_names)
  have f: "resp_header (snd (failing ''boom'' w' r' s')) k = resp_header s' k" for w' r' s' k
    by (simp add: failing_def logger_Info_def)
  have g: "resp_header (snd (silent w' r' s')) k = resp_header s' k" for w' r' s' k
    by (simp add: silent_def)
  have c: "Header_Get (Header correlated) ''X-Request-Context'' = ''abc''"
    "Header_Get (Header get_root) ''X-Request-Context'' = []"
    by (simp_all add: correlated_def get_root_def Header_Get_def canonical_names)
  have A: "Header_Get (resp_header (snd (Audit header_names (failing ''boom'') Transport
        correlated idle_world))) (RequestIDHeader header_names) =
        UUID_String (fst (NewV4 idle_world))"
    and B: "Header_Get (resp_header (snd (Audit header_names (failing ''boom'') Transport
        correlated idle_world))) (RequestContextHeader header_names) =
        Header_Get (Header correlated) (RequestContextHeader header_names)"
    using Audit_response_headers [of header_names "failing ''boom''" Transport correlated
        idle_world, OF d e f f]
    by blast+
  have C: "Header_Get (resp_header (snd (Audit header_names silent Transport get_root
        idle_world))) (RequestContextHeader header_names) =
        Header_Get (Header get_root) (RequestContextHeader header_names)"
    using Audit_response_headers [of header_names silent Transport get_root idle_world,
        OF d e g g]
    by blast
  show ?thesis
    using d A B C unfolding n c NewV4_idle by simp
qed

text \<open>What \<open>auditHandle\<close> stores under the trace-id and the correlation-id keys.\<close>

lemma auditHandle_context:
  "\<exists>rw r6 s5.
     (\<forall>handler. fst (auditHandle K handler w r s) = fst (handler (as_writer rw) r6 s5)) \<and>
     ctx_Value (Context r6) ContextKeys_TID = Some (StringValue (UUID_String (fst (NewV4 s)))) \<and>
     ctx_Value (Context r6) ContextKeys_CID = Some (StringValue (UUID_String (fst (NewV4 s))))"
  unfolding auditHandle_def Let_def split_beta fst_conv
  apply (intro exI conjI allI)
    apply (rule refl)
   apply (simp_all add: set_req_def WithContext_def WithValue_def ctx_Value_def)
  done

text \<open>
  C2: the request-scoped storage the handler receives holds the trace id under the
  trace-id key, and under the correlation-id key the trace id again: the source stores
  \<open>tid\<close> there, not \<open>cid\<close>. On a request whose correlation-id header is "abc" the
  value under the correlation-id key is the generated trace id.
\<close>

theorem auditHandle_stores_trace_id_as_correlation_id:
  "Header_Get (Header correlated) (RequestContextHeader header_names) = ''abc'' \<and>
   (\<exists>rw r6 s5.
     (\<forall>handler. fst (auditHandle header_names handler Transport correlated idle_world) =
        fst (handler (as_writer rw) r6 s5)) \<and>
     ctx_Value (Context r6) ContextKeys_TID =
       Some (StringValue ''00000000-0000-4000-8000-000000000000'') \<and>
     ctx_Value (Context r6) ContextKeys_CID =
       Some (StringValue ''00000000-0000-4000-8000-000000000000''))"
proof -
  have c: "Header_Get (Header correlated) (RequestContextHeader header_names) = ''abc''"
    by (simp add: correlated_def header_names_def Header_Get_def canonical_names)
  show ?thesis
    using c auditHandle_context [of header_names Transport correlated idle_world]
    unfolding NewV4_idle by blast
qed

section \<open>The logging decorator\<close>

lemma logged_frame:
  "Status rw (logger_Info lg ev fs s) = Status rw s"
  "Size rw (logger_Info lg ev fs s) = Size rw s"
  "now (logger_Info lg ev fs s) = now s"
  "Status rw (logger_Error lg ev fs s) = Status rw s"
  "Size rw (logger_Error lg ev fs s) = Size rw s"
  "now (logger_Error lg ev fs s) = now s"
  by (cases rw; simp add: logger_Info_def logger_Error_def)+

text \<open>
  What \<open>Log\<close> does around any handler: the writer it hands over is fresh, and the
  log grows by the handler's entries, an error entry if the handler failed, and the
  response entry.
\<close>

lemma Log_run:
  "\<exists>rw r2 s3. Status rw s3 = 0 \<and> Size rw s3 = 0 \<and> (\<forall>handler.
     fst (Log handler w r s) = fst (handler (as_writer rw) r2 s3) \<and>
     log (snd (Log handler w r s)) =
       log (snd (handler (as_writer rw) r2 s3)) @
       (case fst (handler (as_writer rw) r2 s3) of
          None \<Rightarrow> []
        | Some e \<Rightarrow>
            [\<lparr>severity = ErrorLevel, event = ''haki.http.RequestErr'',
              entry_fields =
                [l_String ''tid'' (UUID_String (fst (NewV4 s))), l_String ''method'' (Method r),
                 l_String ''path'' (URL_Path r), l_Err e]\<rparr>]) @
       [\<lparr>severity = InfoLevel, event = ''haki.http.Response'',
         entry_fields =
           [l_String ''tid'' (UUID_String (fst (NewV4 s))), l_String ''method'' (Method r),
            l_String ''path'' (URL_Path r),
            l_String ''status'' (StatusText (Status rw (snd (handler (as_writer rw) r2 s3)))),
            l_Int ''size'' (Size rw (snd (handler (as_writer rw) r2 s3))),
            l_Duration ''requestTime'' (now (snd (handler (as_writer rw) r2 s3)) - now s)]\<rparr>])"
proof -
  define lg where "lg = [l_String ''tid'' (UUID_String (fst (NewV4 s))),
    l_String ''method'' (Method r), l_String ''path'' (URL_Path r)]"
  define r2 where "r2 = set_req (WithContext r (WithValue (Context r) (StringKey ''tid'')
    (StringValue (UUID_String (fst (NewV4 s)))))) ContextKeys_LOG (LoggerValue lg)"
  define s2 where "s2 = logger_Info lg ''haki.hhtp.Request'' [l_Bool ''ctxIsNil'' False]
    (snd (NewV4 s))"
  define rw where "rw = fst (NewResponseWriter w s2)"
  define s3 where "s3 = snd (NewResponseWriter w s2)"
  have fresh: "Status rw s3 = 0" "Size rw s3 = 0"
    by (simp_all add: rw_def s3_def NewResponseWriter_def)
  have run: "logHandle handler w r s =
      (let s4 = snd (handler (as_writer rw) r2 s3);
           s5 = (case fst (handler (as_writer rw) r2 s3) of
                   Some e \<Rightarrow> logger_Error lg ''haki.http.RequestErr'' [l_Err e] s4
                 | None \<Rightarrow> s4)
       in (fst (handler (as_writer rw) r2 s3),
           logger_Info lg ''haki.http.Response''
             [l_String ''status'' (StatusText (Status rw s5)), l_Int ''size'' (Size rw s5),
              l_Duration ''requestTime'' (now s5 - now s)] s5))" for handler
    by (simp add: logHandle_def Let_def split_beta lg_def r2_def s2_def rw_def s3_def
        l_WithFields_def WithContext_def NewV4_frame cong: option.case_cong)
  have "fst (Log handler w r s) = fst (handler (as_writer rw) r2 s3) \<and>
     log (snd (Log handler w r s)) =
       log (snd (handler (as_writer rw) r2 s3)) @
       (case fst (handler (as_writer rw) r2 s3) of
          None \<Rightarrow> []
        | Some e \<Rightarrow>
            [\<lparr>severity = ErrorLevel, event = ''haki.http.RequestErr'',
              entry_fields = lg @ [l_Err e]\<rparr>]) @
       [\<lparr>severity = InfoLevel, event = ''haki.http.Response'',
         entry_fields = lg @
           [l_String ''status'' (StatusText (Status rw (snd (handler (as_writer rw) r2 s3)))),
            l_Int ''size'' (Size rw (snd (handler (as_writer rw) r2 s3))),
            l_Duration ''requestTime'' (now (snd (handler (as_writer rw) r2 s3)) - now s)]\<rparr>]"
    for handler
  proof (cases "fst (handler (as_writer rw) r2 s3)")
    case None
    then show ?thesis by (simp add: Log_def run Let_def logger_Info_def)
  next
    case (Some e)
    then show ?thesis
      by (simp add: Log_def run Let_def logged_frame) (simp add: logger_Info_def logger_Error_def)
  qed
  then show ?thesis using fresh unfolding lg_def append.simps by blast
qed


text \<open>The text of the unset status, and what a handler leaves when it keeps the heap.\<close>

lemma StatusText_unset: "StatusText 0 = []"
  by (simp add: StatusText_def statusText_def)

lemma same_heap:
  "heap t = heap s \<Longrightarrow> Status rw t = Status rw s \<and> Size rw t = Size rw s"
  by (cases rw) simp

text \<open>
  C10: on a fresh instrumented writer, before any \<open>Write\<close> or \<open>WriteHeader\<close>,
  \<open>Status\<close> is 0 (not 200), \<open>Written\<close> is false and \<open>Size\<close> is 0. A handler
  that changes no struct of the heap, so that it writes nothing through its writer,
  leaves the status 0, whose text is empty; \<open>Log\<close> around such a handler reports
  the text of status 0 and size 0 in its response entry.
\<close>

theorem fresh_sink_is_unset:
  assumes "NewResponseWriter w s = (rw, s0)"
    and quiet: "\<And>w' r' s'. heap (snd (h w' r' s')) = heap s'"
  shows "Status rw s0 = 0 \<and> Status rw s0 \<noteq> 200 \<and> \<not> Written rw s0 \<and> Size rw s0 = 0 \<and>
         Status rw (snd (h (as_writer rw) r s0)) = 0 \<and>
         StatusText (Status rw (snd (h (as_writer rw) r s0))) = [] \<and>
         event (last (log (snd (Log h w r s)))) = ''haki.http.Response'' \<and>
         l_String ''status'' (StatusText 0) \<in> set (entry_fields (last (log (snd (Log h w r s))))) \<and>
         l_Int ''size'' 0 \<in> set (entry_fields (last (log (snd (Log h w r s)))))"
proof -
  have rw: "rw = responseWriter_at (next_ptr s) w"
    and s0: "s0 = s\<lparr>heap := (heap s)(next_ptr s := \<lparr>status = 0, size' = 0\<rparr>),
                     next_ptr := Suc (next_ptr s)\<rparr>"
    using assms(1) by (auto simp: NewResponseWriter_def)
  have fresh: "Status rw s0 = 0" "Size rw s0 = 0" "\<not> Written rw s0"
    by (simp_all add: rw s0)
  have after: "Status rw (snd (h (as_writer rw) r s0)) = 0"
    using same_heap [OF quiet, of rw "as_writer rw" r s0] fresh by simp
  obtain lw r2 s3 where l0: "Status lw s3 = 0" "Size lw s3 = 0"
    and lg: "log (snd (Log h w r s)) =
       log (snd (h (as_writer lw) r2 s3)) @
       (case fst (h (as_writer lw) r2 s3) of
          None \<Rightarrow> []
        | Some e \<Rightarrow>
            [\<lparr>severity = ErrorLevel, event = ''haki.http.RequestErr'',
              entry_fields =
                [l_String ''tid'' (UUID_String (fst (NewV4 s))), l_String ''method'' (Method r),
                 l_String ''path'' (URL_Path r), l_Err e]\<rparr>]) @
       [\<lparr>severity = InfoLevel, event = ''haki.http.Response'',
         entry_fields =
           [l_String ''tid'' (UUID_String (fst (NewV4 s))), l_String ''method'' (Method r),
            l_String ''path'' (URL_Path r),
            l_String ''status'' (StatusText (Status lw (snd (h (as_writer lw) r2 s3)))),
            l_Int ''size'' (Size lw (snd (h (as_writer lw) r2 s3))),
            l_Duration ''requestTime'' (now (snd (h (as_writer lw) r2 s3)) - now s)]\<rparr>]"
    using Log_run [of w r s] by blast
  have kept: "Status lw (snd (h (as_writer lw) r2 s3)) = 0"
    "Size lw (snd (h (as_writer lw) r2 s3)) = 0"
    using same_heap [OF quiet, of lw "as_writer lw" r2 s3] l0 by simp_all
  have last: "last (log (snd (Log h w r s))) =
      \<lparr>severity = InfoLevel, event = ''haki.http.Response'',
         entry_fields =
           [l_String ''tid'' (UUID_String (fst (NewV4 s))), l_String ''method'' (Method r),
            l_String ''path'' (URL_Path r),
            l_String ''status'' (StatusText 0),
            l_Int ''size'' 0,
            l_Duration ''requestTime'' (now (snd (h (as_writer lw) r2 s3)) - now s)]\<rparr>"
    unfolding lg kept by simp
  show ?thesis
    unfolding last using fresh after by (simp add: StatusText_unset)
qed

text \<open>On the bare transport, with the handler that does nothing.\<close>

theorem fresh_sink_is_unset_witness:
  "Status (fst (NewResponseWriter Transport idle_world)) (snd (NewResponseWriter Transport idle_world)) = 0 \<and>
   \<not> Written (fst (NewResponseWriter Transport idle_world)) (snd (NewResponseWriter Transport idle_world)) \<and>
   Size (fst (NewResponseWriter Transport idle_world)) (snd (NewResponseWriter Transport idle_world)) = 0 \<and>
   l_String ''status'' [] \<in> set (entry_fields (last (log (snd (Log silent Transport get_root idle_world)))))"
proof -
  have q: "\<And>w' r' s'. heap (snd (silent w' r' s')) = heap s'"
    by (simp add: silent_def)
  show ?thesis
    using fresh_sink_is_unset [of Transport idle_world
        "fst (NewResponseWriter Transport idle_world)"
        "snd (NewResponseWriter Transport idle_world)" silent get_root, OF _ q]
    by (simp add: StatusText_unset)
qed

section \<open>Audit and the error-translating decorator\<close>

lemma Error_twice:
  "(h w r s = (None, s1) \<longrightarrow> Error h w r s = (None, s1) \<and> Error (Error h) w r s = Error h w r s) \<and>
   (h w r s = (Some err, s1) \<longrightarrow>
      Error h w r s = (Some err, http_Error w (error_Error err) 500 s1) \<and>
      calls (snd (Error h w r s)) =
        calls s1 @ [WriteHeader_call 500, Write_call (error_Error err @ [CHR 0x0A])] \<and>
      fst (Error (Error h) w r s) = Some err \<and>
      calls (snd (Error (Error h) w r s)) =
        calls s1 @ [WriteHeader_call 500, Write_call (error_Error err @ [CHR 0x0A]),
                    WriteHeader_call 500, Write_call (error_Error err @ [CHR 0x0A])])"
proof -
  have c: "calls (http_Error w m 500 t) =
        calls t @ [WriteHeader_call 500, Write_call (m @ [CHR 0x0A])]" for m t
    by (rule http_Error_calls) simp
  show ?thesis
    by (simp add: Error_def errorHandle_def StatusInternalServerError_def c)
qed

text \<open>
  C9, as the code has it: \<open>Audit\<close> is \<open>Error\<close> applied to the audit core. When the
  audit core returns no error, nothing is written for it, and wrapping \<open>Audit\<close> in
  \<open>Error\<close> once more changes nothing. When it returns an error, \<open>Audit\<close> has made
  the 500 reply and returns the error; \<open>Error\<close> around \<open>Audit\<close> returns the same
  error and makes the reply a second time: the transport receives \<open>WriteHeader(500)\<close>
  and the message twice.
\<close>

theorem Audit_is_Error_of_auditHandle:
  "Audit K h = Error (\<lambda>w r s. auditHandle K h w r s) \<and>
   (auditHandle K h w r s = (None, s1) \<longrightarrow>
      Audit K h w r s = (None, s1) \<and> Error (Audit K h) w r s = Audit K h w r s) \<and>
   (auditHandle K h w r s = (Some err, s1) \<longrightarrow>
      Audit K h w r s = (Some err, http_Error w (error_Error err) 500 s1) \<and>
      calls (snd (Audit K h w r s)) =
        calls s1 @ [WriteHeader_call 500, Write_call (error_Error err @ [CHR 0x0A])] \<and>
      fst (Error (Audit K h) w r s) = Some err \<and>
      calls (snd (Error (Audit K h) w r s)) =
        calls s1 @ [WriteHeader_call 500, Write_call (error_Error err @ [CHR 0x0A]),
                    WriteHeader_call 500, Write_call (error_Error err @ [CHR 0x0A])])"
proof -
  have unfold: "Audit K h = Error (\<lambda>w r s. auditHandle K h w r s)"
    by (simp add: Audit_def)
  show ?thesis
    unfolding unfold
    using Error_twice [of "\<lambda>w r s. auditHandle K h w r s" w r s s1 err]
    by blast
qed

text \<open>What the audit core returns for a failing and for a replying handler.\<close>

lemma auditHandle_failing:
  "fst (auditHandle header_names (failing ''boom'') Transport get_root idle_world) =
     Some (errors_New ''boom'')"
  "calls (snd (auditHandle header_names (failing ''boom'') Transport get_root idle_world)) = []"
  by (simp_all add: auditHandle_def Let_def split_beta failing_def NewResponseWriter_def
      Auditor_Info_def Auditor_Error_def logger_Info_def logger_Error_def NewV4_def
      safeRandom_def idle_world_def)

lemma auditHandle_replying:
  "fst (auditHandle header_names (replying ''ok'') Transport get_root idle_world) = None"
  by (simp add: auditHandle_def Let_def split_beta replying_def)

text \<open>A handler that fails with "boom" and one that replies "ok".\<close>

theorem Audit_is_Error_of_auditHandle_witness:
  "fst (Audit header_names (failing ''boom'') Transport get_root idle_world) =
     Some (errors_New ''boom'') \<and>
   calls (snd (Audit header_names (failing ''boom'') Transport get_root idle_world)) =
     [WriteHeader_call 500, Write_call (''boom'' @ [CHR 0x0A])] \<and>
   calls (snd (Error (Audit header_names (failing ''boom'')) Transport get_root idle_world)) =
     [WriteHeader_call 500, Write_call (''boom'' @ [CHR 0x0A]),
      WriteHeader_call 500, Write_call (''boom'' @ [CHR 0x0A])] \<and>
   Error (Audit header_names (replying ''ok'')) Transport get_root idle_world =
     Audit header_names (replying ''ok'') Transport get_root idle_world"
proof -
  let ?f = "auditHandle header_names (failing ''boom'') Transport get_root idle_world"
  let ?g = "auditHandle header_names (replying ''ok'') Transport get_root idle_world"
  have f: "?f = (Some (errors_New ''boom''), snd ?f)"
    using auditHandle_failing(1) by (simp add: prod_eq_iff)
  have g: "?g = (None, snd ?g)"
    using auditHandle_replying by (simp add: prod_eq_iff)
  have A: "Audit header_names (failing ''boom'') Transport get_root idle_world =
        (Some (errors_New ''boom''), http_Error Transport (error_Error (errors_New ''boom'')) 500 (snd ?f))"
    and B: "calls (snd (Audit header_names (failing ''boom'') Transport get_root idle_world)) =
        calls (snd ?f) @ [WriteHeader_call 500, Write_call (error_Error (errors_New ''boom'') @ [CHR 0x0A])]"
    and C: "calls (snd (Error (Audit header_names (failing ''boom'')) Transport get_root idle_world)) =
        calls (snd ?f) @ [WriteHeader_call 500, Write_call (error_Error (errors_New ''boom'') @ [CHR 0x0A]),
                    WriteHeader_call 500, Write_call (error_Error (errors_New ''boom'') @ [CHR 0x0A])]"
    using Audit_is_Error_of_auditHandle [of header_names "failing ''boom''" Transport get_root
        idle_world "snd ?f" "errors_New ''boom''"] f
    by blast+
  have D: "Error (Audit header_names (replying ''ok'')) Transport get_root idle_world =
     Audit header_names (replying ''ok'') Transport get_root idle_world"
    using Audit_is_Error_of_auditHandle [of header_names "replying ''ok''" Transport get_root
        idle_world "snd ?g" "errors_New []"] g
    by blast
  show ?thesis
    unfolding B C using A D by (simp add: auditHandle_failing(2))
qed

text \<open>
  C9 as stated fails: for a handler that fails with "boom", \<open>Error\<close> around
  \<open>Audit\<close> does not behave as \<open>Audit\<close> alone: the transport receives the status
  and the message twice instead of once.
\<close>

theorem Error_around_Audit_counterexample:
  "Error (Audit header_names (failing ''boom'')) Transport get_root idle_world \<noteq>
     Audit header_names (failing ''boom'') Transport get_root idle_world \<and>
   calls (snd (Audit header_names (failing ''boom'') Transport get_root idle_world)) =
     [WriteHeader_call 500, Write_call (''boom'' @ [CHR 0x0A])] \<and>
   calls (snd (Error (Audit header_names (failing ''boom'')) Transport get_root idle_world)) =
     [WriteHeader_call 500, Write_call (''boom'' @ [CHR 0x0A]),
      WriteHeader_call 500, Write_call (''boom'' @ [CHR 0x0A])]"
proof -
  let ?f = "auditHandle header_names (failing ''boom'') Transport get_root idle_world"
  have f: "?f = (Some (errors_New ''boom''), snd ?f)"
    using auditHandle_failing(1) by (simp add: prod_eq_iff)
  have B: "calls (snd (Audit header_names (failing ''boom'') Transport get_root idle_world)) =
        calls (snd ?f) @ [WriteHeader_call 500, Write_call (error_Error (errors_New ''boom'') @ [CHR 0x0A])]"
    and C: "calls (snd (Error (Audit header_names (failing ''boom'')) Transport get_root idle_world)) =
        calls (snd ?f) @ [WriteHeader_call 500, Write_call (error_Error (errors_New ''boom'') @ [CHR 0x0A]),
                    WriteHeader_call 500, Write_call (error_Error (errors_New ''boom'') @ [CHR 0x0A])]"
    using Error_twice [of "\<lambda>w r s. auditHandle header_names (failing ''boom'') w r s"
        Transport get_root idle_world "snd ?f" "errors_New ''boom''"] f
    unfolding Audit_def by blast+
  have B': "calls (snd (Audit header_names (failing ''boom'') Transport get_root idle_world)) =
     [WriteHeader_call 500, Write_call (''boom'' @ [CHR 0x0A])]"
    unfolding B by (simp add: auditHandle_failing(2))
  have C': "calls (snd (Error (Audit header_names (failing ''boom'')) Transport get_root idle_world)) =
     [WriteHeader_call 500, Write_call (''boom'' @ [CHR 0x0A]),
      WriteHeader_call 500, Write_call (''boom'' @ [CHR 0x0A])]"
    unfolding C by (simp add: auditHandle_failing(2))
  have "Error (Audit header_names (failing ''boom'')) Transport get_root idle_world \<noteq>
     Audit header_names (failing ''boom'') Transport get_root idle_world"
  proof
    assume "Error (Audit header_names (failing ''boom'')) Transport get_root idle_world =
     Audit header_names (failing ''boom'') Transport get_root idle_world"
    then have "calls (snd (Error (Audit header_names (failing ''boom'')) Transport get_root idle_world)) =
     calls (snd (Audit header_names (failing ''boom'') Transport get_root idle_world))" by simp
    then show False unfolding B' C' by simp
  qed
  then show ?thesis using B' C' by simp
qed

section \<open>Dispatch on the content type\<close>

lemma HasPrefix_iff: "HasPrefix s p \<longleftrightarrow> (\<exists>q. s = p @ q)"
  by (induction s p rule: HasPrefix.induct) auto

lemma Contains_iff: "Contains s sub \<longleftrightarrow> (\<exists>p q. s = p @ sub @ q)"
proof (induction s)
  case Nil
  show ?case by (simp add: HasPrefix_iff)
next
  case (Cons c cs)
  have "(\<exists>p q. c # cs = p @ sub @ q) \<longleftrightarrow>
        (\<exists>q. c # cs = sub @ q) \<or> (\<exists>p q. cs = p @ sub @ q)"
  proof
    assume "\<exists>p q. c # cs = p @ sub @ q"
    then obtain p q where pq: "c # cs = p @ sub @ q" by blast
    show "(\<exists>q. c # cs = sub @ q) \<or> (\<exists>p q. cs = p @ sub @ q)"
    proof (cases p)
      case Nil
      with pq show ?thesis by auto
    next
      case (Cons a p')
      with pq have "cs = p' @ sub @ q" by simp
      then show ?thesis by blast
    qed
  next
    assume "(\<exists>q. c # cs = sub @ q) \<or> (\<exists>p q. cs = p @ sub @ q)"
    then show "\<exists>p q. c # cs = p @ sub @ q"
    proof
      assume "\<exists>q. c # cs = sub @ q"
      then obtain q where "c # cs = [] @ sub @ q" by auto
      then show ?thesis by blast
    next
      assume "\<exists>p q. cs = p @ sub @ q"
      then obtain p q where "c # cs = (c # p) @ sub @ q" by auto
      then show ?thesis by blast
    qed
  qed
  then show ?case using Cons.IH by (simp add: HasPrefix_iff)
qed

lemma ReadJSON_Unmarshal: "ReadJSON Decode r data s = Unmarshal Decode data s"
  by (simp add: ReadJSON_def split: prod.splits option.splits)

text \<open>
  C7: when the json content type occurs in the value of the Content-Type header,
  \<open>ReadByContentType\<close> is \<open>ReadJSON\<close>: the decoder runs on the unread body and
  the target, and its target and error come back. When it does not occur, the result is
  the unsupported-content-type error whatever the decoder, with the target and the
  world, the unread body included, as they were.
\<close>

theorem ReadByContentType_dispatch:
  "((\<exists>p q. Header_Get (Header r) (ContentTypeHeader K) = p @ json_ContentType K @ q) \<longrightarrow>
      ReadByContentType K Decode r data s = ReadJSON Decode r data s \<and>
      ReadJSON Decode r data s =
        (let (n, data1, err) = Decode (body s) data
         in ((err, data1), s\<lparr>body := drop n (body s)\<rparr>))) \<and>
   (\<not> (\<exists>p q. Header_Get (Header r) (ContentTypeHeader K) = p @ json_ContentType K @ q) \<longrightarrow>
      ReadByContentType K Decode r data s = ((Some (ErrInvalidContentType K), data), s))"
  unfolding Contains_iff [symmetric]
  by (simp add: ReadByContentType_def ReadJSON_Unmarshal Unmarshal_def)

text \<open>A json request and a plain-text request on the body "[1]".\<close>

theorem ReadByContentType_dispatch_witness:
  "ReadByContentType header_names counting_decoder json_post 0 posted =
     ((None, 3), posted\<lparr>body := []\<rparr>) \<and>
   ReadByContentType header_names counting_decoder text_post 0 posted =
     ((Some (errors_New ''invalid content type''), 0), posted)"
proof -
  have j: "\<exists>p q. Header_Get (Header json_post) (ContentTypeHeader header_names) =
      p @ json_ContentType header_names @ q"
    by (rule exI [of _ "[]"], rule exI [of _ "''; charset=utf-8''"])
       (simp add: json_post_def header_names_def Header_Get_def canonical_names)
  have t: "\<not> (\<exists>p q. Header_Get (Header text_post) (ContentTypeHeader header_names) =
      p @ json_ContentType header_names @ q)"
    unfolding Contains_iff [symmetric]
    by (simp add: text_post_def header_names_def Header_Get_def canonical_names)
  have A: "ReadByContentType header_names counting_decoder json_post 0 posted =
        (let (n, data1, err) = counting_decoder (body posted) 0
         in ((err, data1), posted\<lparr>body := drop n (body posted)\<rparr>))"
    using ReadByContentType_dispatch [of json_post header_names counting_decoder 0 posted] j
    by simp
  have B: "ReadByContentType header_names counting_decoder text_post 0 posted =
        ((Some (ErrInvalidContentType header_names), 0), posted)"
    using ReadByContentType_dispatch [of text_post header_names counting_decoder 0 posted] t
    by blast
  show ?thesis
    unfolding A B by (simp add: counting_decoder_def posted_def header_names_def)
qed

end
